theory Spec2Isabelle
  imports Main "HOL-Library.AList" "HOL-Library.Word"
begin

section \<open>Values of the Python program\<close>

text \<open>
  A decoded JSON value, as \<open>json.loads\<close> and \<open>resp.json()\<close> produce it: \<open>None\<close>,
  \<open>bool\<close>, \<open>int\<close>, \<open>float\<close>, \<open>str\<close>, \<open>list\<close> and \<open>dict\<close> with string keys. A \<open>dict\<close>
  is an association list in insertion order; lookups take the first binding of a key.
  A \<open>float\<close> is its IEEE-754 binary64 bit pattern; no operation of the program looks
  inside one.
\<close>

datatype json =
    JNull
  | JBool bool
  | JInt int
  | JFloat "64 word"
  | JStr string
  | JArr "json list"
  | JObj "(string \<times> json) list"

text \<open>The exceptions the two tools can meet.\<close>

datatype exn = ValueError | TypeError | AttributeError

text \<open>
  A text (an HTTP body, or the \<open>str\<close> a tool returns) is modelled by what decoding it
  gives: \<open>None\<close> for a text that is not JSON, \<open>Some v\<close> for a text that encodes \<open>v\<close>.
  So \<open>json.dumps v\<close> is \<open>Some v\<close>, and \<open>json.loads\<close> raises \<open>ValueError\<close> on \<open>None\<close>
  (\<open>JSONDecodeError\<close> and \<open>UnicodeDecodeError\<close> are both \<open>ValueError\<close>s). Running out
  of memory or of stack while decoding, and a request that gets no response at all, are
  outside the model.
\<close>

type_synonym jtext = "json option"

definition json_dumps :: "json \<Rightarrow> jtext" where
  "json_dumps v = Some v"

definition json_loads :: "jtext \<Rightarrow> exn + json" where
  "json_loads t = (case t of None \<Rightarrow> Inl ValueError | Some v \<Rightarrow> Inr v)"

text \<open>\<open>x.get(k, d)\<close>: only a \<open>dict\<close> has the method.\<close>

definition dict_get :: "json \<Rightarrow> string \<Rightarrow> json \<Rightarrow> exn + json" where
  "dict_get x k d =
     (case x of
        JObj kvs \<Rightarrow> Inr (case map_of kvs k of Some v \<Rightarrow> v | None \<Rightarrow> d)
      | _ \<Rightarrow> Inl AttributeError)"

text \<open>\<open>x[k] = v\<close> with a string key: a \<open>list\<close> wants an integer index, the scalars
  support no item assignment; both raise \<open>TypeError\<close>.\<close>

definition setitem :: "json \<Rightarrow> string \<Rightarrow> json \<Rightarrow> exn + json" where
  "setitem x k v =
     (case x of
        JObj kvs \<Rightarrow> Inr (JObj (AList.update k v kvs))
      | _ \<Rightarrow> Inl TypeError)"

text \<open>\<open>p in s\<close> on two strings: \<open>p\<close> occurs in \<open>s\<close> as a contiguous run.\<close>

fun starts_with :: "string \<Rightarrow> string \<Rightarrow> bool" where
  "starts_with [] s = True"
| "starts_with (a # p) [] = False"
| "starts_with (a # p) (b # s) = (a = b \<and> starts_with p s)"

fun substring :: "string \<Rightarrow> string \<Rightarrow> bool" where
  "substring p [] = (p = [])"
| "substring p (c # s) = (starts_with p (c # s) \<or> substring p s)"

text \<open>\<open>k in x\<close> for a string \<open>k\<close>: key membership on a \<open>dict\<close>, element membership on a
  \<open>list\<close>, the substring test on a \<open>str\<close>, \<open>TypeError\<close> on everything else.\<close>

definition py_contains :: "string \<Rightarrow> json \<Rightarrow> exn + bool" where
  "py_contains k x =
     (case x of
        JObj kvs \<Rightarrow> Inr (k \<in> set (map fst kvs))
      | JArr xs \<Rightarrow> Inr (JStr k \<in> set xs)
      | JStr s \<Rightarrow> Inr (substring k s)
      | _ \<Rightarrow> Inl TypeError)"

text \<open>\<open>iter(x)\<close>: a \<open>list\<close> yields its elements, a \<open>dict\<close> its keys, a \<open>str\<close> its
  characters; the other values are not iterable.\<close>

definition py_iter :: "json \<Rightarrow> exn + json list" where
  "py_iter x =
     (case x of
        JArr xs \<Rightarrow> Inr xs
      | JObj kvs \<Rightarrow> Inr (map (\<lambda>kv. JStr (fst kv)) kvs)
      | JStr s \<Rightarrow> Inr (map (\<lambda>c. JStr [c]) s)
      | _ \<Rightarrow> Inl TypeError)"

text \<open>\<open>str(n)\<close> of an \<open>int\<close>, which the f-strings use: decimal, with a sign when negative.\<close>

definition digit_char :: "nat \<Rightarrow> char" where
  "digit_char d = ''0123456789'' ! d"

fun str_nat :: "nat \<Rightarrow> string" where
  "str_nat n = (if n < 10 then [digit_char n] else str_nat (n div 10) @ [digit_char (n mod 10)])"

declare str_nat.simps [simp del]

definition str_int :: "int \<Rightarrow> string" where
  "str_int i = (if i < 0 then ''-'' @ str_nat (nat (- i)) else str_nat (nat i))"

text \<open>\<open>sep.join(xs)\<close>.\<close>

fun join :: "string \<Rightarrow> string list \<Rightarrow> string" where
  "join sep [] = []"
| "join sep [x] = x"
| "join sep (x # y # ys) = x @ sep @ join sep (y # ys)"

section \<open>The backend and the configuration\<close>

text \<open>
  What \<open>client.get(url)\<close> returns: the status code and the body. The backend is a
  function from the URL requested to the response; a tool returns the list of the URLs it
  requested, in order, with its result (\<open>Inl\<close> an exception that leaves the tool).
\<close>

record response =
  status_code :: int
  body :: jtext

type_synonym backend = "string \<Rightarrow> response"

text \<open>The two module constants, computed once from the environment.\<close>

record config =
  LIST_DOCS_URL :: string
  BASE_FETCH_URL :: string

section \<open>list_all_docs\<close>

text \<open>The URL of line 72, for the limit and offset already normalised.\<close>

definition list_url :: "config \<Rightarrow> int \<Rightarrow> int \<Rightarrow> string" where
  "list_url cfg limit offset =
     LIST_DOCS_URL cfg @ ''?limit='' @ str_int limit @ ''&offset='' @ str_int offset"

definition list_failed :: "int \<Rightarrow> json" where
  "list_failed code = JObj [(''error'', JStr ''list_all_docs failed''), (''status'', JInt code)]"

definition list_undecodable :: json where
  "list_undecodable = JObj [(''error'', JStr ''Failed to decode JSON from list_all_docs'')]"

text \<open>
  Lines 75 to 89, what the tool makes of the response: the status check, \<open>resp.json()\<close>
  under \<open>except ValueError\<close>, then \<open>data["_request"] = ...\<close>, which is outside every
  handler.
\<close>

definition list_response :: "response \<Rightarrow> int \<Rightarrow> int \<Rightarrow> exn + jtext" where
  "list_response resp limit offset =
     (if status_code resp \<noteq> 200 then Inr (json_dumps (list_failed (status_code resp)))
      else
        (case json_loads (body resp) of
           Inl e \<Rightarrow> (if e = ValueError then Inr (json_dumps list_undecodable) else Inl e)
         | Inr data \<Rightarrow>
             (case setitem data ''_request''
                     (JObj [(''limit'', JInt limit), (''offset'', JInt offset)]) of
                Inl e \<Rightarrow> Inl e
              | Inr data' \<Rightarrow> Inr (json_dumps data'))))"

text \<open>Lines 64 to 74: the three clamps, the URL, the one request.\<close>

definition list_all_docs :: "config \<Rightarrow> backend \<Rightarrow> int \<Rightarrow> int \<Rightarrow> string list \<times> (exn + jtext)" where
  "list_all_docs cfg client_get limit0 offset0 =
     (let limit1 = (if limit0 < 1 then 1 else limit0);
          limit = (if limit1 > 1000 then 1000 else limit1);
          offset = (if offset0 < 0 then 0 else offset0);
          url = list_url cfg limit offset;
          resp = client_get url
      in ([url], list_response resp limit offset))"

section \<open>fetch_doc_content\<close>

text \<open>Lines 158 to 162: the body of the \<open>try\<close> block, then the block with its handler,
  which catches every exception.\<close>

definition catalog_parse :: "jtext \<Rightarrow> exn + json" where
  "catalog_parse docs_raw =
     (case json_loads docs_raw of
        Inl e \<Rightarrow> Inl e
      | Inr docs_data \<Rightarrow> dict_get docs_data ''documents'' (JArr []))"

definition documents_of :: "jtext \<Rightarrow> json" where
  "documents_of docs_raw =
     (case catalog_parse docs_raw of
        Inl e \<Rightarrow> JArr []
      | Inr documents \<Rightarrow> documents)"

text \<open>
  Line 163, \<open>any(d.get("id") == doc_uid for d in documents)\<close>, outside the \<open>try\<close>: it
  stops at the first match, and an entry without \<open>get\<close> raises before the entries after
  it are looked at.
\<close>

fun any_id_eq :: "string \<Rightarrow> json list \<Rightarrow> exn + bool" where
  "any_id_eq doc_uid [] = Inr False"
| "any_id_eq doc_uid (d # ds) =
     (case dict_get d ''id'' JNull of
        Inl e \<Rightarrow> Inl e
      | Inr v \<Rightarrow> if v = JStr doc_uid then Inr True else any_id_eq doc_uid ds)"

definition doc_listed :: "json \<Rightarrow> string \<Rightarrow> exn + bool" where
  "doc_listed documents doc_uid =
     (case py_iter documents of Inl e \<Rightarrow> Inl e | Inr ds \<Rightarrow> any_id_eq doc_uid ds)"

definition not_found :: "string \<Rightarrow> json" where
  "not_found doc_uid =
     JObj [(''error'', JStr (''Document '' @ [CHR 0x27] @ doc_uid @ [CHR 0x27] @ '' not found''))]"

text \<open>
  Lines 169 to 190: \<open>if ranges:\<close> is the truth value of an optional string, false for
  \<open>None\<close> and for the empty string alike.
\<close>

definition single_range_params :: "int option \<Rightarrow> int option \<Rightarrow> string list" where
  "single_range_params start0 max_length0 =
     (if start0 \<noteq> None \<or> max_length0 \<noteq> None then
        (let start1 = (case start0 of None \<Rightarrow> 0 | Some s \<Rightarrow> s);
             start = (if start1 < 0 then 0 else start1);
             max_length1 = (case max_length0 of None \<Rightarrow> 10000 | Some m \<Rightarrow> m);
             max_length2 = (if max_length1 < 1 then 1 else max_length1);
             max_length = (if max_length2 > 50000 then 50000 else max_length2)
         in [''start='' @ str_int start, ''max_length='' @ str_int max_length])
      else [])"

definition params :: "int option \<Rightarrow> int option \<Rightarrow> string option \<Rightarrow> string list" where
  "params start max_length ranges =
     (case ranges of
        None \<Rightarrow> single_range_params start max_length
      | Some r \<Rightarrow> if r \<noteq> [] then [''ranges='' @ r] else single_range_params start max_length)"

definition query :: "int option \<Rightarrow> int option \<Rightarrow> string option \<Rightarrow> string" where
  "query start max_length ranges =
     (let ps = params start max_length ranges
      in if ps \<noteq> [] then ''?'' @ join ''&'' ps else [])"

definition fetch_url :: "config \<Rightarrow> string \<Rightarrow> string \<Rightarrow> string" where
  "fetch_url cfg doc_uid q = BASE_FETCH_URL cfg @ ''/'' @ doc_uid @ q"

definition fetch_failed :: "int \<Rightarrow> json" where
  "fetch_failed code =
     JObj [(''error'', JStr ''fetch_doc_content failed''), (''status'', JInt code)]"

definition fetch_undecodable :: json where
  "fetch_undecodable = JObj [(''error'', JStr ''Failed to decode JSON from fetch_doc_content'')]"

text \<open>Lines 216 to 219, one key at a time: \<open>if k in meta: result[k] = meta.get(k)\<close>.\<close>

definition surface :: "string \<Rightarrow> json \<Rightarrow> (string \<times> json) list \<Rightarrow> exn + (string \<times> json) list" where
  "surface k meta result =
     (case py_contains k meta of
        Inl e \<Rightarrow> Inl e
      | Inr present \<Rightarrow>
          if present then
            (case dict_get meta k JNull of
               Inl e \<Rightarrow> Inl e
             | Inr v \<Rightarrow> Inr (AList.update k v result))
          else Inr result)"

text \<open>Lines 195 to 221, what the tool makes of the content endpoint's response.\<close>

definition fetch_response :: "response \<Rightarrow> exn + jtext" where
  "fetch_response resp =
     (if status_code resp \<noteq> 200 then Inr (json_dumps (fetch_failed (status_code resp)))
      else
        (case json_loads (body resp) of
           Inl e \<Rightarrow> (if e = ValueError then Inr (json_dumps fetch_undecodable) else Inl e)
         | Inr data \<Rightarrow>
             (case dict_get data ''document'' (JObj []) of
                Inl e \<Rightarrow> Inl e
              | Inr document \<Rightarrow>
                  (case dict_get data ''meta'' (JObj []) of
                     Inl e \<Rightarrow> Inl e
                   | Inr meta \<Rightarrow>
                       (case surface ''has_more'' meta
                               [(''document'', document), (''meta'', meta)] of
                          Inl e \<Rightarrow> Inl e
                        | Inr result1 \<Rightarrow>
                            (case surface ''next_start'' meta result1 of
                               Inl e \<Rightarrow> Inl e
                             | Inr result \<Rightarrow> Inr (json_dumps (JObj result))))))))"

text \<open>
  Lines 158 to 221, the tool once the catalog text \<open>docs_raw\<close> is in hand. The requests
  listed are those issued from here on.
\<close>

definition fetch_with_catalog ::
  "config \<Rightarrow> backend \<Rightarrow> jtext \<Rightarrow> string \<Rightarrow> int option \<Rightarrow> int option \<Rightarrow> string option
     \<Rightarrow> string list \<times> (exn + jtext)" where
  "fetch_with_catalog cfg client_get docs_raw doc_uid start max_length ranges =
     (case doc_listed (documents_of docs_raw) doc_uid of
        Inl e \<Rightarrow> ([], Inl e)
      | Inr found \<Rightarrow>
          if \<not> found then ([], Inr (json_dumps (not_found doc_uid)))
          else
            (let url = fetch_url cfg doc_uid (query start max_length ranges)
             in ([url], fetch_response (client_get url))))"

text \<open>Line 157 and the rest: the catalog is fetched outside the \<open>try\<close>, so an exception
  of \<open>list_all_docs\<close> leaves \<open>fetch_doc_content\<close> too.\<close>

definition fetch_doc_content ::
  "config \<Rightarrow> backend \<Rightarrow> string \<Rightarrow> int option \<Rightarrow> int option \<Rightarrow> string option
     \<Rightarrow> string list \<times> (exn + jtext)" where
  "fetch_doc_content cfg client_get doc_uid start max_length ranges =
     (case list_all_docs cfg client_get 1000 0 of
        (reqs, Inl e) \<Rightarrow> (reqs, Inl e)
      | (reqs, Inr docs_raw) \<Rightarrow>
          (case fetch_with_catalog cfg client_get docs_raw doc_uid start max_length ranges of
             (reqs', r) \<Rightarrow> (reqs @ reqs', r)))"

section \<open>Catalogs and descriptors\<close>

text \<open>
  The catalog a well-formed listing response carries: the status is 200 and the body is an
  object whose \<open>documents\<close>, when present, is an array of objects. Every other response
  carries none.
\<close>

fun is_document :: "json \<Rightarrow> bool" where
  "is_document (JObj kvs) = True"
| "is_document _ = False"

fun has_id :: "string \<Rightarrow> json \<Rightarrow> bool" where
  "has_id doc_uid (JObj kvs) = (map_of kvs ''id'' = Some (JStr doc_uid))"
| "has_id doc_uid _ = False"

definition catalog_of :: "response \<Rightarrow> json list option" where
  "catalog_of resp =
     (if status_code resp \<noteq> 200 then None
      else
        (case body resp of
           Some (JObj kvs) \<Rightarrow>
             (case map_of kvs ''documents'' of
                None \<Rightarrow> Some []
              | Some (JArr ds) \<Rightarrow> if list_all is_document ds then Some ds else None
              | Some _ \<Rightarrow> None)
         | _ \<Rightarrow> None))"

text \<open>
  A document descriptor as the backend lists it (lines 31 to 33, in the docstring of
  list_all_docs) with its JSON, and the response of a backend that answers the request for
  limit=1000, offset=0 with the first 1000 descriptors of its catalog.
\<close>

record descriptor =
  doc_id :: string
  doc_name :: string
  hashtags :: "string list"

definition descriptor_json :: "descriptor \<Rightarrow> json" where
  "descriptor_json d =
     JObj [(''id'', JStr (doc_id d)), (''name'', JStr (doc_name d)),
           (''hashtags'', JArr (map JStr (hashtags d)))]"

definition first_page :: "descriptor list \<Rightarrow> response" where
  "first_page cat =
     \<lparr>status_code = 200,
      body = Some (JObj [(''documents'', JArr (map descriptor_json (take 1000 cat)))])\<rparr>"

section \<open>The wording of the specification\<close>

text \<open>
  The mode selection as the specification words it, by the presence of the optional
  parameters alone: \<open>ranges\<close> present gives Multi-Range whatever the other two are;
  otherwise \<open>start\<close> or \<open>max_length\<close> present gives Single-Range, with the defaults
  filled in and then clamped; otherwise Index. \<open>mode_query\<close> is the query string of a mode.
\<close>

datatype mode = Index | SingleRange int int | MultiRange string

definition mode_query :: "mode \<Rightarrow> string" where
  "mode_query m =
     (case m of
        Index \<Rightarrow> []
      | SingleRange s l \<Rightarrow> ''?start='' @ str_int s @ ''&max_length='' @ str_int l
      | MultiRange r \<Rightarrow> ''?ranges='' @ r)"

definition spec_mode :: "int option \<Rightarrow> int option \<Rightarrow> string option \<Rightarrow> mode" where
  "spec_mode start max_length ranges =
     (case ranges of
        Some r \<Rightarrow> MultiRange r
      | None \<Rightarrow>
          if start \<noteq> None \<or> max_length \<noteq> None then
            SingleRange (max (case start of None \<Rightarrow> 0 | Some s \<Rightarrow> s) 0)
              (min 50000 (max 1 (case max_length of None \<Rightarrow> 10000 | Some l \<Rightarrow> l)))
          else Index)"

text \<open>A success status in the sense of HTTP: 2xx.\<close>

definition is_success :: "int \<Rightarrow> bool" where
  "is_success code = (200 \<le> code \<and> code < 300)"

section \<open>Concrete backends\<close>

text \<open>The default configuration, and a backend that answers every listing request with
  one response and every other request with another.\<close>

definition cfg0 :: config where
  "cfg0 = \<lparr>LIST_DOCS_URL = ''http://localhost:9002/api/list_all_docs'',
           BASE_FETCH_URL = ''http://localhost:9002/api/fetch_doc_content''\<rparr>"

definition serve :: "config \<Rightarrow> response \<Rightarrow> response \<Rightarrow> backend" where
  "serve cfg listing content url =
     (if starts_with (LIST_DOCS_URL cfg @ ''?'') url then listing else content)"

text \<open>Listing responses: a catalog of one document, an outage, a body that is not JSON,
  a status 201, a body that is an array, a catalog whose \<open>documents\<close> is \<open>null\<close>, a catalog
  whose entry is a string.\<close>

definition doc_abc :: json where
  "doc_abc = JObj [(''id'', JStr ''abc123''), (''name'', JStr ''Guide''),
                   (''hashtags'', JArr [JStr ''api''])]"

definition catalog_abc :: response where
  "catalog_abc = \<lparr>status_code = 200, body = Some (JObj [(''documents'', JArr [doc_abc])])\<rparr>"

definition outage :: response where
  "outage = \<lparr>status_code = 500, body = None\<rparr>"

definition garbled :: response where
  "garbled = \<lparr>status_code = 200, body = None\<rparr>"

definition created :: response where
  "created = \<lparr>status_code = 201, body = Some (JObj [(''documents'', JArr [doc_abc])])\<rparr>"

definition body_array :: response where
  "body_array = \<lparr>status_code = 200, body = Some (JArr [])\<rparr>"

definition catalog_null_documents :: response where
  "catalog_null_documents =
     \<lparr>status_code = 200, body = Some (JObj [(''documents'', JNull)])\<rparr>"

definition catalog_bad_entry :: response where
  "catalog_bad_entry =
     \<lparr>status_code = 200, body = Some (JObj [(''documents'', JArr [JStr ''abc123''])])\<rparr>"

text \<open>Content responses: a slice with both convenience keys, a missing document, a
  \<open>meta\<close> that is \<open>null\<close>.\<close>

definition content_abc :: response where
  "content_abc =
     \<lparr>status_code = 200,
      body = Some (JObj [(''document'', JObj [(''id'', JStr ''abc123''), (''content'', JStr ''text'')]),
                         (''meta'', JObj [(''has_more'', JBool True), (''next_start'', JInt 500)])])\<rparr>"

definition missing :: response where
  "missing = \<lparr>status_code = 404, body = None\<rparr>"

definition content_null_meta :: response where
  "content_null_meta =
     \<lparr>status_code = 200,
      body = Some (JObj [(''document'', JObj [(''id'', JStr ''abc123'')]), (''meta'', JNull)])\<rparr>"

text \<open>A catalog of 1001 documents, the last of them alone with the id \<open>zzz\<close>.\<close>

definition filler :: descriptor where
  "filler = \<lparr>doc_id = ''abc123'', doc_name = ''Guide'', hashtags = [''api'']\<rparr>"

definition late :: descriptor where
  "late = \<lparr>doc_id = ''zzz'', doc_name = ''Appendix'', hashtags = []\<rparr>"

section \<open>Auxiliary facts\<close>

lemma list_all_docs_eq:
  "list_all_docs cfg client_get limit offset =
     ([list_url cfg (min 1000 (max 1 limit)) (max 0 offset)],
      list_response (client_get (list_url cfg (min 1000 (max 1 limit)) (max 0 offset)))
        (min 1000 (max 1 limit)) (max 0 offset))"
proof -
  have l: "(if (if limit < 1 then 1 else limit) > 1000 then 1000
            else (if limit < 1 then 1 else limit)) = min 1000 (max 1 limit)"
    by simp
  have o: "(if offset < 0 then 0 else offset) = max 0 offset"
    by simp
  show ?thesis
    unfolding list_all_docs_def Let_def l o ..
qed

lemma list_all_docs_1000_0:
  "list_all_docs cfg client_get 1000 0 =
     ([list_url cfg 1000 0], list_response (client_get (list_url cfg 1000 0)) 1000 0)"
  using list_all_docs_eq [of cfg client_get 1000 0] by simp

lemma fetch_doc_content_eq:
  "fetch_doc_content cfg client_get doc_uid start max_length ranges =
     (case list_response (client_get (list_url cfg 1000 0)) 1000 0 of
        Inl e \<Rightarrow> ([list_url cfg 1000 0], Inl e)
      | Inr docs_raw \<Rightarrow>
          (list_url cfg 1000 0
             # fst (fetch_with_catalog cfg client_get docs_raw doc_uid start max_length ranges),
           snd (fetch_with_catalog cfg client_get docs_raw doc_uid start max_length ranges)))"
  unfolding fetch_doc_content_def list_all_docs_1000_0
  by (simp split: sum.split prod.split)

lemma any_id_eq_documents:
  "list_all is_document ds \<Longrightarrow> any_id_eq doc_uid ds = Inr (list_ex (has_id doc_uid) ds)"
proof (induction ds)
  case Nil
  show ?case by simp
next
  case (Cons d ds)
  from Cons.prems obtain kvs where d: "d = JObj kvs"
    by (cases d) simp_all
  from Cons show ?case
    by (simp add: d dict_get_def split: option.split)
qed

lemma documents_of_list_response:
  assumes "catalog_of resp = Some ds"
  shows "\<exists>docs_raw. list_response resp limit offset = Inr docs_raw
           \<and> documents_of docs_raw = JArr ds"
proof -
  from assms have st: "status_code resp = 200"
    by (simp add: catalog_of_def split: if_splits)
  from assms obtain kvs where b: "body resp = Some (JObj kvs)"
    by (auto simp: catalog_of_def split: if_splits option.splits json.splits)
  from assms st b have d: "(case map_of kvs ''documents'' of None \<Rightarrow> JArr [] | Some v \<Rightarrow> v) = JArr ds"
    by (auto simp: catalog_of_def split: if_splits option.splits json.splits)
  have m: "map_of (AList.update ''_request'' v kvs) ''documents'' = map_of kvs ''documents''" for v
    by (simp add: update_conv')
  show ?thesis
    using d by (simp add: list_response_def st b json_loads_def setitem_def json_dumps_def
        documents_of_def catalog_parse_def dict_get_def m split: option.splits)
qed

lemma fetch_doc_content_catalog:
  assumes "catalog_of (client_get (list_url cfg 1000 0)) = Some ds"
  shows "fetch_doc_content cfg client_get doc_uid start max_length ranges =
     (if list_ex (has_id doc_uid) ds then
        ([list_url cfg 1000 0, fetch_url cfg doc_uid (query start max_length ranges)],
         fetch_response (client_get (fetch_url cfg doc_uid (query start max_length ranges))))
      else ([list_url cfg 1000 0], Inr (json_dumps (not_found doc_uid))))"
proof -
  from documents_of_list_response [OF assms, of 1000 0]
  obtain docs_raw where r: "list_response (client_get (list_url cfg 1000 0)) 1000 0 = Inr docs_raw"
    and d: "documents_of docs_raw = JArr ds"
    by blast
  from assms have a: "list_all is_document ds"
    by (auto simp: catalog_of_def split: if_splits option.splits json.splits)
  have l: "doc_listed (JArr ds) doc_uid = Inr (list_ex (has_id doc_uid) ds)"
    by (simp add: doc_listed_def py_iter_def any_id_eq_documents [OF a])
  show ?thesis
    unfolding fetch_doc_content_eq r
    by (simp add: fetch_with_catalog_def d l Let_def)
qed

lemma list_url_cfg0: "list_url cfg0 1000 0 = ''http://localhost:9002/api/list_all_docs?limit=1000&offset=0''"
  by (simp add: list_url_def cfg0_def str_int_def str_nat.simps digit_char_def)

lemma starts_with_append: "starts_with p (p @ r)"
  by (induction p) simp_all

lemma serve_listing: "serve cfg listing content (list_url cfg limit offset) = listing"
proof -
  have "list_url cfg limit offset =
          (LIST_DOCS_URL cfg @ ''?'') @ (''limit='' @ str_int limit @ ''&offset='' @ str_int offset)"
    by (simp add: list_url_def)
  then show ?thesis
    by (simp only: serve_def starts_with_append if_True)
qed

lemma fetch_doc_content_empty:
  assumes "list_response (client_get (list_url cfg 1000 0)) 1000 0 = Inr docs_raw"
    and "documents_of docs_raw = JArr []"
  shows "fetch_doc_content cfg client_get doc_uid start max_length ranges =
           ([list_url cfg 1000 0], Inr (json_dumps (not_found doc_uid)))"
  unfolding fetch_doc_content_eq assms(1)
  by (simp add: fetch_with_catalog_def assms(2) doc_listed_def py_iter_def)

lemma documents_of_list_failed: "documents_of (json_dumps (list_failed code)) = JArr []"
  by (simp add: documents_of_def catalog_parse_def json_dumps_def json_loads_def list_failed_def
      dict_get_def)

lemma documents_of_list_undecodable: "documents_of (json_dumps list_undecodable) = JArr []"
  by (simp add: documents_of_def catalog_parse_def json_dumps_def json_loads_def
      list_undecodable_def dict_get_def)

lemma single_range_params_eq:
  "single_range_params start max_length =
     (if start \<noteq> None \<or> max_length \<noteq> None then
        [''start='' @ str_int (max (case start of None \<Rightarrow> 0 | Some s \<Rightarrow> s) 0),
         ''max_length='' @ str_int (min 50000 (max 1 (case max_length of None \<Rightarrow> 10000 | Some l \<Rightarrow> l)))]
      else [])"
proof -
  have s: "(if x < 0 then 0 else x) = max x 0" for x :: int
    by simp
  have l: "(if (if y < 1 then 1 else y) > 50000 then 50000 else (if y < 1 then 1 else y))
             = min 50000 (max 1 y)" for y :: int
    by simp
  show ?thesis
    unfolding single_range_params_def Let_def s l ..
qed

lemma query_eq_spec:
  "query start max_length ranges =
     mode_query (spec_mode start max_length (if ranges = Some [] then None else ranges))"
proof (cases ranges)
  case None
  then show ?thesis
    by (simp add: query_def params_def single_range_params_eq spec_mode_def mode_query_def)
next
  case (Some r)
  then show ?thesis
    by (cases "r = []")
       (simp_all add: query_def params_def single_range_params_eq spec_mode_def mode_query_def)
qed

lemma catalog_abc_listed:
  "catalog_of (serve cfg0 catalog_abc content (list_url cfg0 1000 0)) = Some [doc_abc]"
  by (simp add: serve_listing catalog_of_def catalog_abc_def doc_abc_def)

lemma doc_abc_id: "list_ex (has_id ''abc123'') [doc_abc]"
  by (simp add: doc_abc_def)

lemma base_cfg0: "BASE_FETCH_URL cfg0 = ''http://localhost:9002/api/fetch_doc_content''"
  by (simp add: cfg0_def)

lemma str_int_5: "str_int 5 = ''5''"
  by (simp add: str_int_def str_nat.simps digit_char_def)

lemma str_int_10000: "str_int 10000 = ''10000''"
  by (simp add: str_int_def str_nat.simps digit_char_def)

lemma str_int_0: "str_int 0 = ''0''"
  by (simp add: str_int_def str_nat.simps digit_char_def)

lemma str_int_50000: "str_int 50000 = ''50000''"
  by (simp add: str_int_def str_nat.simps digit_char_def)

lemma list_response_failed_iff:
  "list_response resp limit offset = Inr (json_dumps (list_failed code))
     \<longleftrightarrow> status_code resp \<noteq> 200 \<and> code = status_code resp"
proof (cases "status_code resp = 200")
  case False
  then show ?thesis
    by (auto simp: list_response_def json_dumps_def list_failed_def)
next
  case True
  have u: "AList.update ''_request'' v kvs \<noteq> [(''error'', a), (''status'', b)]" for v kvs a b
  proof
    assume "AList.update ''_request'' v kvs = [(''error'', a), (''status'', b)]"
    then have "map_of (AList.update ''_request'' v kvs) ''_request''
                 = map_of [(''error'', a), (''status'', b)] ''_request''"
      by simp
    then show False
      by (simp add: update_conv')
  qed
  show ?thesis
  proof (cases "body resp")
    case None
    with True show ?thesis
      by (simp add: list_response_def json_loads_def json_dumps_def list_failed_def
          list_undecodable_def)
  next
    case (Some data)
    with True show ?thesis
      by (cases data)
         (simp_all add: list_response_def json_loads_def json_dumps_def list_failed_def
            setitem_def u)
  qed
qed

lemma surface_object:
  "surface k (JObj m) result =
     Inr (case map_of m k of None \<Rightarrow> result | Some v \<Rightarrow> AList.update k v result)"
proof (cases "map_of m k")
  case None
  then have "k \<notin> fst ` set m"
    by (simp add: map_of_eq_None_iff)
  with None show ?thesis
    by (simp add: surface_def py_contains_def dict_get_def)
next
  case (Some v)
  then have "k \<in> fst ` set m"
    by (metis map_of_eq_None_iff option.distinct(1))
  with Some show ?thesis
    by (simp add: surface_def py_contains_def dict_get_def)
qed

lemma surface_keeps_document:
  assumes "surface k meta result = Inr result'"
    and "k \<noteq> ''document''"
  shows "map_of result' ''document'' = map_of result ''document''"
  using assms
  by (auto simp: surface_def update_conv' split: sum.splits if_splits)

lemma fetch_response_failed_iff:
  "fetch_response resp = Inr (json_dumps (fetch_failed code))
     \<longleftrightarrow> status_code resp \<noteq> 200 \<and> code = status_code resp"
proof (cases "status_code resp = 200")
  case False
  then show ?thesis
    by (auto simp: fetch_response_def json_dumps_def fetch_failed_def)
next
  case True
  have "fetch_response resp \<noteq> Inr (json_dumps (fetch_failed code))"
  proof
    assume a: "fetch_response resp = Inr (json_dumps (fetch_failed code))"
    show False
    proof (cases "body resp")
      case None
      with True a show False
        by (simp add: fetch_response_def json_loads_def json_dumps_def fetch_failed_def
            fetch_undecodable_def)
    next
      case (Some data)
      with True a obtain document meta result1 result
        where "dict_get data ''document'' (JObj []) = Inr document"
          and "dict_get data ''meta'' (JObj []) = Inr meta"
          and s1: "surface ''has_more'' meta [(''document'', document), (''meta'', meta)] = Inr result1"
          and s2: "surface ''next_start'' meta result1 = Inr result"
          and r: "JObj result = fetch_failed code"
        by (auto simp: fetch_response_def json_loads_def json_dumps_def split: sum.splits)
      from surface_keeps_document [OF s2] surface_keeps_document [OF s1]
      have "map_of result ''document'' = Some document"
        by simp
      with r show False
        by (simp add: fetch_failed_def)
    qed
  qed
  with True show ?thesis
    by simp
qed

lemma fetch_url_abc:
  "fetch_url cfg0 ''abc123'' [] = ''http://localhost:9002/api/fetch_doc_content/abc123''"
  by (simp add: fetch_url_def cfg0_def)

lemma query_index: "query None None None = []"
  by (simp add: query_def params_def single_range_params_def)

lemma serve_content_abc: "serve cfg0 listing content (fetch_url cfg0 ''abc123'' []) = content"
  unfolding fetch_url_abc by (simp add: serve_def cfg0_def)

lemma fetch_response_object:
  assumes "status_code resp = 200"
    and "body resp = Some (JObj kvs)"
    and "(case map_of kvs ''meta'' of None \<Rightarrow> JObj [] | Some v \<Rightarrow> v) = JObj m"
  shows "fetch_response resp =
           Inr (json_dumps (JObj
             ([(''document'', (case map_of kvs ''document'' of None \<Rightarrow> JObj [] | Some d \<Rightarrow> d)),
               (''meta'', JObj m)]
              @ (case map_of m ''has_more'' of None \<Rightarrow> [] | Some v \<Rightarrow> [(''has_more'', v)])
              @ (case map_of m ''next_start'' of None \<Rightarrow> [] | Some v \<Rightarrow> [(''next_start'', v)]))))"
proof -
  define document where "document = (case map_of kvs ''document'' of None \<Rightarrow> JObj [] | Some d \<Rightarrow> d)"
  have d: "dict_get (JObj kvs) ''document'' (JObj []) = Inr document"
    by (simp add: dict_get_def document_def)
  have mt: "dict_get (JObj kvs) ''meta'' (JObj []) = Inr (JObj m)"
    using assms(3) by (simp add: dict_get_def)
  have s1: "surface ''has_more'' (JObj m) [(''document'', document), (''meta'', JObj m)] =
              Inr ([(''document'', document), (''meta'', JObj m)]
                   @ (case map_of m ''has_more'' of None \<Rightarrow> [] | Some v \<Rightarrow> [(''has_more'', v)]))"
    by (simp add: surface_object split: option.split)
  have s2: "surface ''next_start'' (JObj m)
              ([(''document'', document), (''meta'', JObj m)]
                   @ (case map_of m ''has_more'' of None \<Rightarrow> [] | Some v \<Rightarrow> [(''has_more'', v)])) =
              Inr ([(''document'', document), (''meta'', JObj m)]
                   @ (case map_of m ''has_more'' of None \<Rightarrow> [] | Some v \<Rightarrow> [(''has_more'', v)])
                   @ (case map_of m ''next_start'' of None \<Rightarrow> [] | Some v \<Rightarrow> [(''next_start'', v)]))"
    by (simp add: surface_object split: option.split)
  show ?thesis
    unfolding fetch_response_def document_def [symmetric]
    by (simp only: assms(1) assms(2) json_loads_def option.case sum.case d mt s1 s2
        simp_thms if_False)
qed

lemma descriptors_are_documents: "list_all is_document (map descriptor_json ds)"
  by (induction ds) (simp_all add: descriptor_json_def)

lemma has_id_descriptor: "has_id doc_uid (descriptor_json d) \<longleftrightarrow> doc_id d = doc_uid"
  by (simp add: descriptor_json_def)

lemma catalog_of_first_page:
  "catalog_of (first_page cat) = Some (map descriptor_json (take 1000 cat))"
  by (simp add: catalog_of_def first_page_def descriptors_are_documents)

lemma base_list_cfg0: "LIST_DOCS_URL cfg0 = ''http://localhost:9002/api/list_all_docs''"
  by (simp add: cfg0_def)

lemma list_url_cfg0_1_0:
  "list_url cfg0 1 0 = ''http://localhost:9002/api/list_all_docs?limit=1&offset=0''"
  by (simp add: list_url_def cfg0_def str_int_def str_nat.simps digit_char_def)

lemma list_url_cfg0_1000_5:
  "list_url cfg0 1000 5 = ''http://localhost:9002/api/list_all_docs?limit=1000&offset=5''"
  by (simp add: list_url_def cfg0_def str_int_def str_nat.simps digit_char_def)

section \<open>Pagination parameters\<close>

text \<open>
  C4. For every integer limit and offset passed to list_all_docs, exactly one request is
  issued, to the listing URL whose limit is the given one clamped into 1..1000 (below 1
  becomes 1, above 1000 becomes 1000, anything between is unchanged) and whose offset is
  the given one with negatives replaced by 0. No limit or offset is turned away: what the
  call returns is what the tool makes of the backend's response to that request, so the
  failure object carries the backend's status when that is not 200, and a body that is an
  object comes back with the clamped values added under \<open>_request\<close>.
\<close>

theorem list_all_docs_clamp:
  "(let l = (if limit < 1 then 1 else if limit > 1000 then 1000 else limit);
        off = (if offset < 0 then 0 else offset);
        url = list_url cfg l off;
        resp = client_get url
    in url = LIST_DOCS_URL cfg @ ''?limit='' @ str_int l @ ''&offset='' @ str_int off
       \<and> list_all_docs cfg client_get limit offset = ([url], list_response resp l off)
       \<and> (status_code resp = 200 \<and> body resp = Some (JObj kvs) \<longrightarrow>
            snd (list_all_docs cfg client_get limit offset) =
              Inr (json_dumps (JObj (AList.update ''_request''
                     (JObj [(''limit'', JInt l), (''offset'', JInt off)]) kvs))))
       \<and> (status_code resp \<noteq> 200 \<longrightarrow>
            snd (list_all_docs cfg client_get limit offset) =
              Inr (json_dumps (list_failed (status_code resp)))))"
proof -
  define l where "l = (if limit < 1 then 1 else if limit > 1000 then 1000 else limit)"
  define off where "off = (if offset < 0 then 0 else offset)"
  define resp where "resp = client_get (list_url cfg l off)"
  have l: "min 1000 (max 1 limit) = l"
    by (simp add: l_def)
  have o: "max 0 offset = off"
    by (simp add: off_def)
  have e: "list_all_docs cfg client_get limit offset = ([list_url cfg l off], list_response resp l off)"
    unfolding list_all_docs_eq l o resp_def ..
  have s: "status_code resp = 200 \<and> body resp = Some (JObj kvs) \<longrightarrow>
             list_response resp l off =
               Inr (json_dumps (JObj (AList.update ''_request''
                      (JObj [(''limit'', JInt l), (''offset'', JInt off)]) kvs)))"
    by (simp add: list_response_def json_loads_def setitem_def)
  have f: "status_code resp \<noteq> 200 \<longrightarrow>
             list_response resp l off = Inr (json_dumps (list_failed (status_code resp)))"
    by (simp add: list_response_def)
  have "list_url cfg l off = LIST_DOCS_URL cfg @ ''?limit='' @ str_int l @ ''&offset='' @ str_int off
       \<and> list_all_docs cfg client_get limit offset = ([list_url cfg l off], list_response resp l off)
       \<and> (status_code resp = 200 \<and> body resp = Some (JObj kvs) \<longrightarrow>
            snd (list_all_docs cfg client_get limit offset) =
              Inr (json_dumps (JObj (AList.update ''_request''
                     (JObj [(''limit'', JInt l), (''offset'', JInt off)]) kvs))))
       \<and> (status_code resp \<noteq> 200 \<longrightarrow>
            snd (list_all_docs cfg client_get limit offset) =
              Inr (json_dumps (list_failed (status_code resp))))"
    using s f by (simp only: e snd_conv simp_thms list_url_def)
  then show ?thesis
    unfolding Let_def l_def off_def resp_def .
qed

theorem list_all_docs_clamp_witness:
  "list_all_docs cfg0 (serve cfg0 catalog_abc content_abc) 0 (- 5) =
     ([''http://localhost:9002/api/list_all_docs?limit=1&offset=0''],
      Inr (Some (JObj [(''documents'', JArr [doc_abc]),
                       (''_request'', JObj [(''limit'', JInt 1), (''offset'', JInt 0)])])))
   \<and> list_all_docs cfg0 (serve cfg0 outage content_abc) 5000 5 =
     ([''http://localhost:9002/api/list_all_docs?limit=1000&offset=5''],
      Inr (Some (JObj [(''error'', JStr ''list_all_docs failed''), (''status'', JInt 500)])))"
proof -
  note a = list_all_docs_clamp [of 0 "- 5" cfg0 "serve cfg0 catalog_abc content_abc"
             "[(''documents'', JArr [doc_abc])]", unfolded Let_def]
  note b = list_all_docs_clamp [of 5000 5 cfg0 "serve cfg0 outage content_abc" "[]",
             unfolded Let_def]
  have a1: "fst (list_all_docs cfg0 (serve cfg0 catalog_abc content_abc) 0 (- 5)) = [list_url cfg0 1 0]"
    using a [THEN conjunct2, THEN conjunct1] by simp
  have a2: "snd (list_all_docs cfg0 (serve cfg0 catalog_abc content_abc) 0 (- 5)) =
              Inr (json_dumps (JObj (AList.update ''_request''
                     (JObj [(''limit'', JInt 1), (''offset'', JInt 0)])
                     [(''documents'', JArr [doc_abc])])))"
    using a [THEN conjunct2, THEN conjunct2, THEN conjunct1]
    by (simp add: serve_listing catalog_abc_def)
  have b1: "fst (list_all_docs cfg0 (serve cfg0 outage content_abc) 5000 5) = [list_url cfg0 1000 5]"
    using b [THEN conjunct2, THEN conjunct1] by simp
  have b2: "snd (list_all_docs cfg0 (serve cfg0 outage content_abc) 5000 5) =
              Inr (json_dumps (list_failed 500))"
    using b [THEN conjunct2, THEN conjunct2, THEN conjunct2]
    by (simp add: serve_listing outage_def)
  show ?thesis
    using a1 a2 b1 b2
    by (simp add: prod_eq_iff list_url_cfg0_1_0 list_url_cfg0_1000_5 json_dumps_def list_failed_def)
qed

section \<open>Validation of the document identifier\<close>



section \<open>Failures of the catalog fetch inside fetch_doc_content\<close>

text \<open>
  C9. For every doc_uid, if the listing request that fetch_doc_content issues for its
  validation step is answered with a status other than 200, fetch_doc_content returns the
  error object "Document '<doc_uid>' not found" and issues no further request; what it
  returns is neither the HTTP-failure object of list_all_docs nor that of
  fetch_doc_content, so the status code does not reach the caller.
\<close>

theorem listing_outage_reads_as_not_found:
  assumes "status_code (client_get (list_url cfg 1000 0)) \<noteq> 200"
  shows "fetch_doc_content cfg client_get doc_uid start max_length ranges =
           ([list_url cfg 1000 0], Inr (json_dumps (not_found doc_uid)))
         \<and> (\<forall>code. snd (fetch_doc_content cfg client_get doc_uid start max_length ranges)
                      \<noteq> Inr (json_dumps (list_failed code)))
         \<and> (\<forall>code. snd (fetch_doc_content cfg client_get doc_uid start max_length ranges)
                      \<noteq> Inr (json_dumps (fetch_failed code)))"
proof -
  have r: "list_response (client_get (list_url cfg 1000 0)) 1000 0 =
             Inr (json_dumps (list_failed (status_code (client_get (list_url cfg 1000 0)))))"
    using assms by (simp add: list_response_def)
  have f: "fetch_doc_content cfg client_get doc_uid start max_length ranges =
             ([list_url cfg 1000 0], Inr (json_dumps (not_found doc_uid)))"
    by (rule fetch_doc_content_empty [where client_get = client_get and cfg = cfg, OF r documents_of_list_failed])
  show ?thesis
    unfolding f by (simp add: json_dumps_def not_found_def list_failed_def fetch_failed_def)
qed

theorem listing_outage_reads_as_not_found_witness:
  "status_code (serve cfg0 outage content_abc (list_url cfg0 1000 0)) \<noteq> 200
   \<and> fetch_doc_content cfg0 (serve cfg0 outage content_abc) ''abc123'' None None None =
       ([''http://localhost:9002/api/list_all_docs?limit=1000&offset=0''],
        Inr (Some (JObj [(''error'', JStr ''Document 'abc123' not found'')])))"
proof -
  have h: "status_code (serve cfg0 outage content_abc (list_url cfg0 1000 0)) \<noteq> 200"
    by (simp add: serve_listing outage_def)
  from listing_outage_reads_as_not_found
         [where client_get = "serve cfg0 outage content_abc" and cfg = cfg0, OF h] h
  show ?thesis
    by (simp add: list_url_cfg0 json_dumps_def not_found_def)
qed

text \<open>
  C7, at an input where it fails. When the body of the listing response is not JSON, the
  validation step sees no documents and the call returns "Document '<doc_uid>' not found".
  When the body decodes but its \<open>documents\<close> is \<open>null\<close>, the catalog cannot be read
  either, yet nothing is caught: iterating it at line 163, outside the \<open>try\<close> block,
  raises \<open>TypeError\<close>, which leaves fetch_doc_content in place of the not-found object.
\<close>

theorem catalog_parse_failure_escapes:
  "fetch_doc_content cfg0 (serve cfg0 garbled content_abc) ''abc123'' None None None =
     ([''http://localhost:9002/api/list_all_docs?limit=1000&offset=0''],
      Inr (Some (JObj [(''error'', JStr ''Document 'abc123' not found'')])))
   \<and> fetch_doc_content cfg0 (serve cfg0 catalog_null_documents content_abc) ''abc123'' None None None =
     ([''http://localhost:9002/api/list_all_docs?limit=1000&offset=0''], Inl TypeError)"
proof (intro conjI)
  have r: "list_response garbled 1000 0 = Inr (json_dumps list_undecodable)"
    by (simp add: list_response_def garbled_def json_loads_def)
  have "fetch_doc_content cfg0 (serve cfg0 garbled content_abc) ''abc123'' None None None =
          ([list_url cfg0 1000 0], Inr (json_dumps (not_found ''abc123'')))"
    by (rule fetch_doc_content_empty [where client_get = "serve cfg0 garbled content_abc"
          and cfg = cfg0 and docs_raw = "json_dumps list_undecodable"])
       (simp_all add: serve_listing r documents_of_list_undecodable)
  then show "fetch_doc_content cfg0 (serve cfg0 garbled content_abc) ''abc123'' None None None =
     ([''http://localhost:9002/api/list_all_docs?limit=1000&offset=0''],
      Inr (Some (JObj [(''error'', JStr ''Document 'abc123' not found'')])))"
    by (simp add: list_url_cfg0 json_dumps_def not_found_def)
  have n: "list_response catalog_null_documents 1000 0 =
             Inr (Some (JObj [(''documents'', JNull),
                              (''_request'', JObj [(''limit'', JInt 1000), (''offset'', JInt 0)])]))"
    by (simp add: list_response_def catalog_null_documents_def json_loads_def setitem_def
        json_dumps_def)
  have "fetch_doc_content cfg0 (serve cfg0 catalog_null_documents content_abc) ''abc123'' None None None =
          ([list_url cfg0 1000 0], Inl TypeError)"
    unfolding fetch_doc_content_eq serve_listing n
    by (simp add: fetch_with_catalog_def documents_of_def catalog_parse_def json_loads_def
        dict_get_def doc_listed_def py_iter_def)
  then show "fetch_doc_content cfg0 (serve cfg0 catalog_null_documents content_abc) ''abc123'' None None None =
     ([''http://localhost:9002/api/list_all_docs?limit=1000&offset=0''], Inl TypeError)"
    by (simp add: list_url_cfg0)
qed

section \<open>Mode selection and the content request\<close>

text \<open>
  C1, as amended. Once the document is found in the catalog, fetch_doc_content issues
  exactly one content request, and its query is a function of the three optional parameters
  alone: it is the query of the mode the specification selects by presence, with an empty
  \<open>ranges\<close> string counting as absent. So a non-empty \<open>ranges\<close> gives
  \<open>?ranges=<raw string>\<close> and nothing else, whatever start and max_length are; with
  \<open>ranges\<close> absent or empty, a start or max_length gives
  \<open>?start=<clamped>&max_length=<clamped>\<close>; otherwise there is no query at all.
\<close>

theorem mode_selection:
  assumes "catalog_of (client_get (list_url cfg 1000 0)) = Some ds"
    and "list_ex (has_id doc_uid) ds"
  shows "fst (fetch_doc_content cfg client_get doc_uid start max_length ranges) =
           [list_url cfg 1000 0,
            BASE_FETCH_URL cfg @ ''/'' @ doc_uid
              @ mode_query (spec_mode start max_length (if ranges = Some [] then None else ranges))]"
  using assms(2) fetch_doc_content_catalog [where client_get = client_get and cfg = cfg, OF assms(1)]
  by (simp add: fetch_url_def query_eq_spec)

theorem mode_selection_witness:
  "catalog_of (serve cfg0 catalog_abc content_abc (list_url cfg0 1000 0)) = Some [doc_abc]
   \<and> list_ex (has_id ''abc123'') [doc_abc]
   \<and> fst (fetch_doc_content cfg0 (serve cfg0 catalog_abc content_abc) ''abc123''
             (Some 7) (Some 9) (Some ''0-120,400-550'')) =
       [''http://localhost:9002/api/list_all_docs?limit=1000&offset=0'',
        ''http://localhost:9002/api/fetch_doc_content/abc123?ranges=0-120,400-550'']
   \<and> fst (fetch_doc_content cfg0 (serve cfg0 catalog_abc content_abc) ''abc123''
             None None None) =
       [''http://localhost:9002/api/list_all_docs?limit=1000&offset=0'',
        ''http://localhost:9002/api/fetch_doc_content/abc123'']"
  using mode_selection [where client_get = "serve cfg0 catalog_abc content_abc" and cfg = cfg0,
          OF catalog_abc_listed doc_abc_id, of "Some 7" "Some 9" "Some ''0-120,400-550''"]
        mode_selection [where client_get = "serve cfg0 catalog_abc content_abc" and cfg = cfg0,
          OF catalog_abc_listed doc_abc_id, of None None None]
        catalog_abc_listed [of content_abc] doc_abc_id
  by (simp add: list_url_cfg0 base_cfg0 spec_mode_def mode_query_def)

text \<open>
  C1 as stated fails where \<open>ranges\<close> is present and empty: with \<open>start=5\<close> the request is
  the Single-Range one, not \<open>?ranges=\<close>.
\<close>

theorem empty_ranges_counterexample:
  "fst (fetch_doc_content cfg0 (serve cfg0 catalog_abc content_abc) ''abc123''
          (Some 5) None (Some [])) =
     [''http://localhost:9002/api/list_all_docs?limit=1000&offset=0'',
      ''http://localhost:9002/api/fetch_doc_content/abc123?start=5&max_length=10000'']
   \<and> mode_query (spec_mode (Some 5) None (Some [])) = ''?ranges=''
   \<and> fst (fetch_doc_content cfg0 (serve cfg0 catalog_abc content_abc) ''abc123''
            (Some 5) None (Some [])) \<noteq>
       [list_url cfg0 1000 0,
        BASE_FETCH_URL cfg0 @ ''/'' @ ''abc123'' @ mode_query (spec_mode (Some 5) None (Some []))]"
proof -
  have f: "fetch_doc_content cfg0 (serve cfg0 catalog_abc content_abc) ''abc123''
             (Some 5) None (Some []) =
           ([list_url cfg0 1000 0, fetch_url cfg0 ''abc123'' (query (Some 5) None (Some []))],
            fetch_response (serve cfg0 catalog_abc content_abc
               (fetch_url cfg0 ''abc123'' (query (Some 5) None (Some [])))))"
    using fetch_doc_content_catalog [where client_get = "serve cfg0 catalog_abc content_abc"
        and cfg = cfg0, OF catalog_abc_listed] doc_abc_id
    by simp
  have q: "query (Some 5) None (Some []) = ''?start=5&max_length=10000''"
    by (simp add: query_def params_def single_range_params_def str_int_5 str_int_10000)
  show ?thesis
    unfolding f q
    by (simp add: list_url_cfg0 fetch_url_def base_cfg0 spec_mode_def mode_query_def)
qed

text \<open>
  C5. In Single-Range mode (no usable \<open>ranges\<close>, and start or max_length supplied), for
  every combination of supplied and absent start and max_length, the start sent is
  max(start or 0, 0) and the max_length sent is the value, 10000 when absent, clamped into
  1..50000.
\<close>

theorem single_range_clamp:
  assumes "catalog_of (client_get (list_url cfg 1000 0)) = Some ds"
    and "list_ex (has_id doc_uid) ds"
    and "ranges = None \<or> ranges = Some []"
    and "start \<noteq> None \<or> max_length \<noteq> None"
  shows "fst (fetch_doc_content cfg client_get doc_uid start max_length ranges) =
           [list_url cfg 1000 0,
            BASE_FETCH_URL cfg @ ''/'' @ doc_uid
              @ ''?start='' @ str_int (max (case start of None \<Rightarrow> 0 | Some s \<Rightarrow> s) 0)
              @ ''&max_length=''
              @ str_int (min 50000 (max 1 (case max_length of None \<Rightarrow> 10000 | Some l \<Rightarrow> l)))]"
proof -
  have p: "params start max_length ranges = single_range_params start max_length"
    using assms(3) by (auto simp: params_def)
  have q: "query start max_length ranges =
             ''?start='' @ str_int (max (case start of None \<Rightarrow> 0 | Some s \<Rightarrow> s) 0)
              @ ''&max_length=''
              @ str_int (min 50000 (max 1 (case max_length of None \<Rightarrow> 10000 | Some l \<Rightarrow> l)))"
    using assms(4) by (simp add: query_def p single_range_params_eq)
  show ?thesis
    using assms(2) fetch_doc_content_catalog [where client_get = client_get and cfg = cfg, OF assms(1)]
    by (simp add: fetch_url_def q)
qed

theorem single_range_clamp_witness:
  "catalog_of (serve cfg0 catalog_abc content_abc (list_url cfg0 1000 0)) = Some [doc_abc]
   \<and> list_ex (has_id ''abc123'') [doc_abc]
   \<and> fst (fetch_doc_content cfg0 (serve cfg0 catalog_abc content_abc) ''abc123''
             (Some (- 3)) (Some 60000) None) =
       [''http://localhost:9002/api/list_all_docs?limit=1000&offset=0'',
        ''http://localhost:9002/api/fetch_doc_content/abc123?start=0&max_length=50000'']
   \<and> fst (fetch_doc_content cfg0 (serve cfg0 catalog_abc content_abc) ''abc123''
             (Some 5) None None) =
       [''http://localhost:9002/api/list_all_docs?limit=1000&offset=0'',
        ''http://localhost:9002/api/fetch_doc_content/abc123?start=5&max_length=10000'']"
  using single_range_clamp [where client_get = "serve cfg0 catalog_abc content_abc" and cfg = cfg0
          and start = "Some (- 3)" and max_length = "Some 60000" and ranges = None,
          OF catalog_abc_listed doc_abc_id]
        single_range_clamp [where client_get = "serve cfg0 catalog_abc content_abc" and cfg = cfg0
          and start = "Some 5" and max_length = None and ranges = None,
          OF catalog_abc_listed doc_abc_id]
        catalog_abc_listed [of content_abc] doc_abc_id
  by (simp add: list_url_cfg0 base_cfg0 str_int_0 str_int_5 str_int_10000 str_int_50000)

section \<open>HTTP failures\<close>

text \<open>
  C6, as amended. list_all_docs returns the error object
  {"error": "list_all_docs failed", "status": <code>} exactly when the backend answers the
  listing request with a status other than 200, and <code> is then that status; for status
  200 it never returns an object of that form. Likewise, once the document is found in the
  catalog, fetch_doc_content returns {"error": "fetch_doc_content failed", "status": <code>}
  exactly when the content endpoint answers with a status other than 200.
\<close>

theorem failure_object_iff_not_200:
  "(snd (list_all_docs cfg client_get limit offset) = Inr (json_dumps (list_failed code))
      \<longleftrightarrow> status_code (client_get (list_url cfg (min 1000 (max 1 limit)) (max 0 offset))) \<noteq> 200
          \<and> code = status_code (client_get (list_url cfg (min 1000 (max 1 limit)) (max 0 offset))))
   \<and> (catalog_of (client_get (list_url cfg 1000 0)) = Some ds \<and> list_ex (has_id doc_uid) ds \<longrightarrow>
        (snd (fetch_doc_content cfg client_get doc_uid start max_length ranges)
             = Inr (json_dumps (fetch_failed code))
           \<longleftrightarrow> status_code (client_get (fetch_url cfg doc_uid (query start max_length ranges))) \<noteq> 200
               \<and> code = status_code (client_get (fetch_url cfg doc_uid (query start max_length ranges)))))"
proof (intro conjI impI)
  show "snd (list_all_docs cfg client_get limit offset) = Inr (json_dumps (list_failed code))
      \<longleftrightarrow> status_code (client_get (list_url cfg (min 1000 (max 1 limit)) (max 0 offset))) \<noteq> 200
          \<and> code = status_code (client_get (list_url cfg (min 1000 (max 1 limit)) (max 0 offset)))"
    unfolding list_all_docs_eq snd_conv by (rule list_response_failed_iff)
next
  assume "catalog_of (client_get (list_url cfg 1000 0)) = Some ds \<and> list_ex (has_id doc_uid) ds"
  then have c: "catalog_of (client_get (list_url cfg 1000 0)) = Some ds"
    and h: "list_ex (has_id doc_uid) ds"
    by simp_all
  have "snd (fetch_doc_content cfg client_get doc_uid start max_length ranges) =
          fetch_response (client_get (fetch_url cfg doc_uid (query start max_length ranges)))"
    using h fetch_doc_content_catalog [where client_get = client_get and cfg = cfg, OF c]
    by simp
  then show "snd (fetch_doc_content cfg client_get doc_uid start max_length ranges)
             = Inr (json_dumps (fetch_failed code))
           \<longleftrightarrow> status_code (client_get (fetch_url cfg doc_uid (query start max_length ranges))) \<noteq> 200
               \<and> code = status_code (client_get (fetch_url cfg doc_uid (query start max_length ranges)))"
    by (simp only: fetch_response_failed_iff)
qed

theorem failure_object_iff_not_200_witness:
  "catalog_of (serve cfg0 catalog_abc missing (list_url cfg0 1000 0)) = Some [doc_abc]
   \<and> list_ex (has_id ''abc123'') [doc_abc]
   \<and> snd (list_all_docs cfg0 (serve cfg0 outage content_abc) 0 (- 5)) =
       Inr (Some (JObj [(''error'', JStr ''list_all_docs failed''), (''status'', JInt 500)]))
   \<and> snd (fetch_doc_content cfg0 (serve cfg0 catalog_abc missing) ''abc123'' None None None) =
       Inr (Some (JObj [(''error'', JStr ''fetch_doc_content failed''), (''status'', JInt 404)]))"
  using failure_object_iff_not_200 [where client_get = "serve cfg0 outage content_abc"
          and cfg = cfg0 and limit = 0 and offset = "- 5" and code = 500 and ds = "[]"
          and doc_uid = "''abc123''" and start = None and max_length = None and ranges = None]
        failure_object_iff_not_200 [where client_get = "serve cfg0 catalog_abc missing"
          and cfg = cfg0 and limit = 0 and offset = 0 and code = 404 and ds = "[doc_abc]"
          and doc_uid = "''abc123''" and start = None and max_length = None and ranges = None]
        catalog_abc_listed [of missing] doc_abc_id
  by (simp add: serve_listing query_index serve_content_abc outage_def missing_def
      json_dumps_def list_failed_def fetch_failed_def)

text \<open>
  C6 as stated fails at the success status 201: list_all_docs returns its failure object
  for it.
\<close>

theorem status_201_counterexample:
  "is_success 201
   \<and> status_code (serve cfg0 created content_abc (list_url cfg0 100 0)) = 201
   \<and> snd (list_all_docs cfg0 (serve cfg0 created content_abc) 100 0) =
       Inr (Some (JObj [(''error'', JStr ''list_all_docs failed''), (''status'', JInt 201)]))"
proof -
  have "list_all_docs cfg0 (serve cfg0 created content_abc) 100 0 =
          ([list_url cfg0 100 0], list_response created 100 0)"
    using list_all_docs_eq [of cfg0 "serve cfg0 created content_abc" 100 0]
    by (simp add: serve_listing)
  then show ?thesis
    by (simp add: serve_listing is_success_def list_response_def created_def json_dumps_def
        list_failed_def)
qed

section \<open>The shape of a successful result\<close>

text \<open>
  C8, at an input where it fails. For a content body whose \<open>meta\<close> is an object, the
  result has the keys \<open>document\<close> and \<open>meta\<close>, then \<open>has_more\<close> and \<open>next_start\<close> with
  the values meta gives them. For status 200 and a body that is an object with
  \<open>"meta": null\<close>, the test \<open>"has_more" in meta\<close> of line 216 raises \<open>TypeError\<close>, and
  no object is returned at all.
\<close>

theorem null_meta_escapes:
  "fetch_doc_content cfg0 (serve cfg0 catalog_abc content_abc) ''abc123'' None None None =
     ([''http://localhost:9002/api/list_all_docs?limit=1000&offset=0'',
       ''http://localhost:9002/api/fetch_doc_content/abc123''],
      Inr (Some (JObj
        [(''document'', JObj [(''id'', JStr ''abc123''), (''content'', JStr ''text'')]),
         (''meta'', JObj [(''has_more'', JBool True), (''next_start'', JInt 500)]),
         (''has_more'', JBool True),
         (''next_start'', JInt 500)])))
   \<and> status_code content_null_meta = 200
   \<and> body content_null_meta =
       Some (JObj [(''document'', JObj [(''id'', JStr ''abc123'')]), (''meta'', JNull)])
   \<and> fetch_doc_content cfg0 (serve cfg0 catalog_abc content_null_meta) ''abc123'' None None None =
       ([''http://localhost:9002/api/list_all_docs?limit=1000&offset=0'',
         ''http://localhost:9002/api/fetch_doc_content/abc123''],
        Inl TypeError)"
proof -
  have g: "fetch_response content_abc =
             Inr (Some (JObj
               [(''document'', JObj [(''id'', JStr ''abc123''), (''content'', JStr ''text'')]),
                (''meta'', JObj [(''has_more'', JBool True), (''next_start'', JInt 500)]),
                (''has_more'', JBool True),
                (''next_start'', JInt 500)]))"
    using fetch_response_object [of content_abc
        "[(''document'', JObj [(''id'', JStr ''abc123''), (''content'', JStr ''text'')]),
          (''meta'', JObj [(''has_more'', JBool True), (''next_start'', JInt 500)])]"
        "[(''has_more'', JBool True), (''next_start'', JInt 500)]"]
    by (simp add: content_abc_def json_dumps_def)
  have f: "fetch_response content_null_meta = Inl TypeError"
    by (simp add: fetch_response_def content_null_meta_def json_loads_def dict_get_def
        surface_def py_contains_def)
  have c: "fetch_doc_content cfg0 (serve cfg0 catalog_abc content) ''abc123'' None None None =
          ([list_url cfg0 1000 0, fetch_url cfg0 ''abc123'' []], fetch_response content)" for content
    using fetch_doc_content_catalog [where client_get = "serve cfg0 catalog_abc content"
        and cfg = cfg0 and doc_uid = "''abc123''" and start = None and max_length = None
        and ranges = None, OF catalog_abc_listed] doc_abc_id
    by (simp add: query_index serve_content_abc)
  show ?thesis
    unfolding c g f
    by (simp add: list_url_cfg0 fetch_url_abc content_null_meta_def)
qed

section \<open>Exceptions that leave the tools\<close>

text \<open>
  C2, at inputs where it fails. A listing body that decodes to an array makes
  \<open>data["_request"] = ...\<close> raise \<open>TypeError\<close>, which leaves list_all_docs and, the call
  being outside the \<open>try\<close>, fetch_doc_content. A catalog entry that is a string makes
  \<open>d.get\<close> raise \<open>AttributeError\<close>, and so does a content body that is an array.
\<close>

theorem exception_escapes:
  "snd (list_all_docs cfg0 (serve cfg0 body_array content_abc) 100 0) = Inl TypeError
   \<and> snd (fetch_doc_content cfg0 (serve cfg0 body_array content_abc) ''abc123'' None None None)
        = Inl TypeError
   \<and> snd (fetch_doc_content cfg0 (serve cfg0 catalog_bad_entry content_abc) ''abc123'' None None None)
        = Inl AttributeError
   \<and> snd (fetch_doc_content cfg0 (serve cfg0 catalog_abc body_array) ''abc123'' None None None)
        = Inl AttributeError"
proof (intro conjI)
  have r: "list_response body_array limit offset = Inl TypeError" for limit offset
    by (simp add: list_response_def body_array_def json_loads_def setitem_def)
  show "snd (list_all_docs cfg0 (serve cfg0 body_array content_abc) 100 0) = Inl TypeError"
    unfolding list_all_docs_eq snd_conv serve_listing by (rule r)
  show "snd (fetch_doc_content cfg0 (serve cfg0 body_array content_abc) ''abc123'' None None None)
          = Inl TypeError"
    unfolding fetch_doc_content_eq serve_listing r by simp
  have b: "list_response catalog_bad_entry 1000 0 =
             Inr (Some (JObj [(''documents'', JArr [JStr ''abc123'']),
                              (''_request'', JObj [(''limit'', JInt 1000), (''offset'', JInt 0)])]))"
    by (simp add: list_response_def catalog_bad_entry_def json_loads_def setitem_def json_dumps_def)
  show "snd (fetch_doc_content cfg0 (serve cfg0 catalog_bad_entry content_abc) ''abc123'' None None None)
          = Inl AttributeError"
    unfolding fetch_doc_content_eq serve_listing b
    by (simp add: fetch_with_catalog_def documents_of_def catalog_parse_def json_loads_def
        dict_get_def doc_listed_def py_iter_def)
  have f: "fetch_response body_array = Inl AttributeError"
    by (simp add: fetch_response_def body_array_def json_loads_def dict_get_def)
  show "snd (fetch_doc_content cfg0 (serve cfg0 catalog_abc body_array) ''abc123'' None None None)
          = Inl AttributeError"
    using fetch_doc_content_catalog [where client_get = "serve cfg0 catalog_abc body_array"
        and cfg = cfg0 and doc_uid = "''abc123''" and start = None and max_length = None
        and ranges = None, OF catalog_abc_listed] doc_abc_id
    by (simp add: query_index serve_content_abc f)
qed

section \<open>Validation sees one page of the catalog\<close>

text \<open>
  C10. The validation step requests the page limit=1000, offset=0 and nothing else. So for
  every backend catalog in which a document with id doc_uid exists but only at listing
  position 1000 or later, and a backend that answers that request with the first 1000
  entries, fetch_doc_content returns "Document '<doc_uid>' not found" and the content
  endpoint is not contacted, although the document exists.
\<close>

theorem validation_sees_first_page_only:
  assumes "client_get (LIST_DOCS_URL cfg @ ''?limit=1000&offset=0'') = first_page cat"
    and "1000 \<le> i" and "i < length cat" and "doc_id (cat ! i) = doc_uid"
    and "\<forall>j<1000. j < length cat \<longrightarrow> doc_id (cat ! j) \<noteq> doc_uid"
  shows "fetch_doc_content cfg client_get doc_uid start max_length ranges =
           ([LIST_DOCS_URL cfg @ ''?limit=1000&offset=0''], Inr (json_dumps (not_found doc_uid)))"
proof -
  have u: "list_url cfg 1000 0 = LIST_DOCS_URL cfg @ ''?limit=1000&offset=0''"
    by (simp add: list_url_def str_int_def str_nat.simps digit_char_def)
  have c: "catalog_of (client_get (list_url cfg 1000 0)) = Some (map descriptor_json (take 1000 cat))"
    by (simp only: u assms(1) catalog_of_first_page)
  have "doc_id d \<noteq> doc_uid" if "d \<in> set (take 1000 cat)" for d
  proof -
    from that obtain j where "j < length (take 1000 cat)" and "take 1000 cat ! j = d"
      by (auto simp: in_set_conv_nth)
    with assms(5) show ?thesis
      by auto
  qed
  then have n: "\<not> list_ex (has_id doc_uid) (map descriptor_json (take 1000 cat))"
    by (auto simp: list_ex_iff has_id_descriptor)
  show ?thesis
    using n fetch_doc_content_catalog [where client_get = client_get and cfg = cfg, OF c]
    by (simp add: u)
qed

theorem validation_sees_first_page_only_witness:
  "serve cfg0 (first_page (replicate 1000 filler @ [late])) content_abc
       (LIST_DOCS_URL cfg0 @ ''?limit=1000&offset=0'')
     = first_page (replicate 1000 filler @ [late])
   \<and> (1000::nat) < length (replicate 1000 filler @ [late])
   \<and> doc_id ((replicate 1000 filler @ [late]) ! 1000) = ''zzz''
   \<and> doc_id ((replicate 1000 filler @ [late]) ! 999) = ''abc123''
   \<and> fetch_doc_content cfg0 (serve cfg0 (first_page (replicate 1000 filler @ [late])) content_abc)
         ''zzz'' None None None =
       ([''http://localhost:9002/api/list_all_docs?limit=1000&offset=0''],
        Inr (Some (JObj [(''error'', JStr ''Document 'zzz' not found'')])))"
proof -
  have a: "serve cfg0 (first_page (replicate 1000 filler @ [late])) content_abc
             (LIST_DOCS_URL cfg0 @ ''?limit=1000&offset=0'')
           = first_page (replicate 1000 filler @ [late])"
    using serve_listing [of cfg0 _ _ 1000 0]
    by (simp add: list_url_cfg0 base_list_cfg0)
  have l: "(1000::nat) < length (replicate 1000 filler @ [late])"
    by simp
  have i: "doc_id ((replicate 1000 filler @ [late]) ! 1000) = ''zzz''"
    by (simp add: nth_append late_def)
  have j: "\<forall>j<1000. j < length (replicate 1000 filler @ [late])
          \<longrightarrow> doc_id ((replicate 1000 filler @ [late]) ! j) \<noteq> ''zzz''"
    by (simp add: nth_append filler_def)
  from validation_sees_first_page_only [where client_get =
           "serve cfg0 (first_page (replicate 1000 filler @ [late])) content_abc"
           and cfg = cfg0 and i = 1000, OF a _ l i j] a l i
  show ?thesis
    by (simp add: base_list_cfg0 json_dumps_def not_found_def nth_append filler_def)
qed

end
